theory Spec2Isabelle
  imports Complex_Main "HOL-Library.Log_Nat" "HOL-Library.Sublist" "HOL-Library.Word"
begin

section \<open>Dataset registry (datasets.py, lines 15--87)\<close>

text \<open>
  The three module-level tables of \<^verbatim>\<open>datasets.py\<close>. A Python dict literal is kept as
  the association list of its entries, in source order; a lookup \<^verbatim>\<open>D[k]\<close> is
  \<open>map_of D k\<close> and \<^verbatim>\<open>k in D\<close> is membership in the list of keys.
\<close>

definition DATASET_LINKS :: "(string \<times> string) list" where
  "DATASET_LINKS =
    [(''annthyroid'', ''https://www.dropbox.com/s/aifk51owxbogwav/annthyroid.mat?dl=0''),
     (''arrhythmia'', ''https://www.dropbox.com/s/lmlwuspn1sey48r/arrhythmia.mat?dl=0''),
     (''breastw'', ''https://www.dropbox.com/s/g3hlnucj71kfvq4/breastw.mat?dl=0''),
     (''cardio'', ''https://www.dropbox.com/s/galg3ihvxklf0qi/cardio.mat?dl=0''),
     (''cover'', ''https://www.dropbox.com/s/awx8iuzbu8dkxf1/cover.mat?dl=0''),
     (''glass'', ''https://www.dropbox.com/s/iq3hjxw77gpbl7u/glass.mat?dl=0''),
     (''http'', ''https://www.dropbox.com/s/iy9ucsifal754tp/http.mat?dl=0''),
     (''ionosphere'', ''https://www.dropbox.com/s/lpn4z73fico4uup/ionosphere.mat?dl=0''),
     (''lympho'', ''https://www.dropbox.com/s/ag469ssk0lmctco/lympho.mat?dl=0''),
     (''mammography'', ''https://www.dropbox.com/s/tq2v4hhwyv17hlk/mammography.mat?dl=0''),
     (''mnist'', ''https://www.dropbox.com/s/n3wurjt8v9qi6nc/mnist.mat?dl=0''),
     (''musk'', ''https://www.dropbox.com/s/we6aqhb0m38i60t/musk.mat?dl=0''),
     (''optdigits'', ''https://www.dropbox.com/s/w52ndgz5k75s514/optdigits.mat?dl=0''),
     (''pendigits'', ''https://www.dropbox.com/s/1x8rzb4a0lia6t1/pendigits.mat?dl=0''),
     (''pima'', ''https://www.dropbox.com/s/mvlwu7p0nyk2a2r/pima.mat?dl=0''),
     (''satellite'', ''https://www.dropbox.com/s/dpzxp8jyr9h93k5/satellite.mat?dl=0''),
     (''satimage-2'', ''https://www.dropbox.com/s/hckgvu9m6fs441p/satimage-2.mat?dl=0''),
     (''shuttle'', ''https://www.dropbox.com/s/mk8ozgisimfn3dw/shuttle.mat?dl=0''),
     (''smtp'', ''https://www.dropbox.com/s/dbv2u4830xri7og/smtp.mat?dl=0''),
     (''thyroid'', ''https://www.dropbox.com/s/bih0e15a0fukftb/thyroid.mat?dl=0''),
     (''vertebral'', ''https://www.dropbox.com/s/5kuqb387sgvwmrb/vertebral.mat?dl=0''),
     (''vowels'', ''https://www.dropbox.com/s/pa26odoq6atq9vx/vowels.mat?dl=0''),
     (''wbc'', ''https://www.dropbox.com/s/ebz9v9kdnvykzcb/wbc.mat?dl=0''),
     (''wine'', ''https://www.dropbox.com/s/uvjaudt2uto7zal/wine.mat?dl=0'')]"

definition OTHER_DATASETS :: "string list" where
  "OTHER_DATASETS =
    [''backdoor'', ''campaign'', ''celeba'', ''census'', ''donors'', ''fraud'', ''thyroid-21'']"

definition SHORT_NAMES :: "(string \<times> string) list" where
  "SHORT_NAMES =
    [(''annthyroid'', ''ANNTH.''),
     (''arrhythmia'', ''ARRH.''),
     (''breastw'', ''BRE.W''),
     (''cardio'', ''CARD.''),
     (''cover'', ''COVER''),
     (''glass'', ''GLASS''),
     (''http'', ''HTTP''),
     (''ionosphere'', ''IONO.''),
     (''lympho'', ''LYMP.''),
     (''mammography'', ''MAMMO.''),
     (''mnist'', ''MNIST''),
     (''musk'', ''MUSK''),
     (''optdigits'', ''O.DIG.''),
     (''pendigits'', ''P.DIG.''),
     (''pima'', ''PIMA''),
     (''satellite'', ''SATL.''),
     (''satimage-2'', ''SAT.I-2''),
     (''shuttle'', ''SHUTTLE''),
     (''smtp'', ''SMTP.''),
     (''thyroid'', ''THYR.''),
     (''vertebral'', ''VERT.''),
     (''vowels'', ''VOWELS''),
     (''wbc'', ''WBC''),
     (''wine'', ''WINE''),
     (''backdoor'', ''BACKDOOR''),
     (''campaign'', ''CAMPAIGN''),
     (''celeba'', ''CELEBA''),
     (''census'', ''CENSUS''),
     (''donors'', ''DONORS''),
     (''fraud'', ''FRAUD''),
     (''thyroid-21'', ''THYROID-21'')]"

definition DATASET_NAMES :: "string list" where
  "DATASET_NAMES = map fst DATASET_LINKS @ OTHER_DATASETS"

text \<open>
  \<open>keys D\<close> is \<^verbatim>\<open>list(D.keys())\<close>; \<open>lookups D k\<close> lists every value the literal
  gives for \<open>k\<close>, so that "exactly one" can be counted on the literal itself.
\<close>

definition keys :: "('k \<times> 'v) list \<Rightarrow> 'k list" where
  "keys D = map fst D"

definition lookups :: "('k \<times> 'v) list \<Rightarrow> 'k \<Rightarrow> 'v list" where
  "lookups D k = map snd (filter (\<lambda>kv. fst kv = k) D)"


section \<open>Python values, numpy arrays and the file system\<close>

text \<open>The exceptions that the modelled code, numpy and the external readers can raise.\<close>

datatype error =
    KeyError | ValueError | IndexError | TypeError | ZeroDivisionError | OverflowError
  | OSError | NotImplementedError | MatReadError

text \<open>
  \<^verbatim>\<open>LookupError\<close> is Python's common base class of \<^verbatim>\<open>KeyError\<close> and
  \<^verbatim>\<open>IndexError\<close>; a failed dict subscript raises \<^verbatim>\<open>KeyError\<close>.
\<close>

fun is_lookup_error :: "error \<Rightarrow> bool" where
  "is_lookup_error KeyError = True"
| "is_lookup_error IndexError = True"
| "is_lookup_error _ = False"

text \<open>
  A numpy array is its element type tag, its shape and its elements in row-major order.
  The elements are of an arbitrary type \<open>'a\<close>: the code never computes with feature
  values, and what numpy does to a single element (a conversion between element types, the
  comparison with an integer literal) is supplied by the environment below.
\<close>

datatype np_dtype = Float32 | Float64 | UInt8 | Int64

record 'a ndarray =
  dtype :: np_dtype
  shape :: "nat list"
  flat :: "'a list"

text \<open>
  A file holds raw bytes (a downloaded \<^verbatim>\<open>.mat\<close> file) or an array written by
  \<^verbatim>\<open>np.save\<close>.
\<close>

datatype 'a content = Raw string | Npy "'a ndarray"

text \<open>
  The file system is flat: a path is a name, and the directory a file is created in is not
  looked at. Every effect on the file system and every call of \<^verbatim>\<open>np.random.choice\<close>
  (size of the population, number requested) is recorded in a trace, in the order they
  happen.
\<close>

datatype event =
    MakeDirs string
  | Download string string
  | Save string
  | RandomChoice nat int

fun is_write :: "event \<Rightarrow> bool" where
  \<comment> \<open>the events that create or change a file or a directory\<close>
  "is_write (MakeDirs p) = True"
| "is_write (Download link p) = True"
| "is_write (Save p) = True"
| "is_write (RandomChoice n k) = False"

record 'a world =
  files :: "string \<Rightarrow> 'a content option"
  dirs :: "string set"
  trace :: "event list"
  rng_pos :: nat

text \<open>
  Everything \<^verbatim>\<open>datasets.py\<close> imports and does not define: the constant
  \<^verbatim>\<open>utils.DATA_DIR\<close>, the \<^verbatim>\<open>wget\<close> program (what it leaves in the target
  file for a URL, \<open>None\<close> when it leaves no file), \<^verbatim>\<open>scipy.io.loadmat\<close>, the items of
  an \<^verbatim>\<open>h5py.File\<close>, \<^verbatim>\<open>pyclam.utils.normalize\<close>, numpy's element conversion and
  element comparison, and the stream of numbers the global random generator hands out.
\<close>

record 'a env =
  DATA_DIR :: string
  wget :: "string \<Rightarrow> string option"
  loadmat :: "'a content \<Rightarrow> error + (string \<times> 'a ndarray) list"
  h5py_File :: "'a content \<Rightarrow> error + (string \<times> 'a ndarray) list"
  normalize_fn :: "'a ndarray \<Rightarrow> string \<Rightarrow> error + 'a ndarray"
  convert :: "np_dtype \<Rightarrow> np_dtype \<Rightarrow> 'a \<Rightarrow> 'a"
  equals_int :: "'a \<Rightarrow> int \<Rightarrow> bool"
  rng :: "nat \<Rightarrow> nat"

subsection \<open>os and subprocess\<close>

definition os_path_join :: "string \<Rightarrow> string \<Rightarrow> string" where
  \<comment> \<open>\<^verbatim>\<open>posixpath.join\<close> of two components\<close>
  "os_path_join a b =
     (if prefix ''/'' b then b
      else if a = [] \<or> suffix ''/'' a then a @ b
      else a @ ''/'' @ b)"

definition os_path_exists :: "'a world \<Rightarrow> string \<Rightarrow> bool" where
  \<comment> \<open>true of a file and of a directory\<close>
  "os_path_exists s p = (case files s p of Some c \<Rightarrow> True | None \<Rightarrow> p \<in> dirs s)"

definition os_makedirs :: "'a world \<Rightarrow> string \<Rightarrow> 'a world" where
  "os_makedirs s p = s\<lparr>dirs := insert p (dirs s), trace := trace s @ [MakeDirs p]\<rparr>"

definition subprocess_run_wget :: "'a env \<Rightarrow> 'a world \<Rightarrow> string \<Rightarrow> string \<Rightarrow> 'a world" where
  \<comment> \<open>\<^verbatim>\<open>subprocess.run(['wget', link, '-O', filename])\<close>; the exit status is ignored\<close>
  "subprocess_run_wget E s link filename =
     (case wget E link of
        None \<Rightarrow> s\<lparr>trace := trace s @ [Download link filename]\<rparr>
      | Some bytes \<Rightarrow>
          s\<lparr>files := (files s)(filename \<mapsto> Raw bytes),
            trace := trace s @ [Download link filename]\<rparr>)"

subsection \<open>numpy\<close>

definition npy_name :: "string \<Rightarrow> string" where
  \<comment> \<open>\<^verbatim>\<open>np.save\<close> appends \<^verbatim>\<open>.npy\<close> to a name that does not end with it\<close>
  "npy_name p = (if suffix ''.npy'' p then p else p @ ''.npy'')"

definition np_save :: "'a world \<Rightarrow> string \<Rightarrow> 'a ndarray \<Rightarrow> 'a world" where
  "np_save s p a =
     s\<lparr>files := (files s)(npy_name p \<mapsto> Npy a), trace := trace s @ [Save (npy_name p)]\<rparr>"

definition np_load :: "'a world \<Rightarrow> string \<Rightarrow> error + 'a ndarray" where
  "np_load s p =
     (case files s p of
        None \<Rightarrow> Inl OSError
      | Some (Raw bytes) \<Rightarrow> Inl ValueError
      | Some (Npy a) \<Rightarrow> Inr a)"

definition np_asarray :: "'a env \<Rightarrow> 'a ndarray \<Rightarrow> np_dtype \<Rightarrow> 'a ndarray" where
  \<comment> \<open>\<^verbatim>\<open>np.asarray(a, dtype=d)\<close>: the array itself if it has that element type, else an
      array of the same shape with every element converted\<close>
  "np_asarray E a d =
     (if dtype a = d then a
      else a\<lparr>dtype := d, flat := map (convert E (dtype a) d) (flat a)\<rparr>)"

fun ravel :: "nat list \<Rightarrow> nat list \<Rightarrow> nat" where
  "ravel (d # ds) (i # is) = i * prod_list ds + ravel ds is"
| "ravel _ _ = 0"

fun unravel :: "nat list \<Rightarrow> nat \<Rightarrow> nat list" where
  "unravel [] k = []"
| "unravel (d # ds) k = (k div prod_list ds) # unravel ds (k mod prod_list ds)"

definition np_transpose :: "'a ndarray \<Rightarrow> 'a ndarray" where
  \<comment> \<open>\<^verbatim>\<open>a.T\<close>: the axes reversed\<close>
  "np_transpose a =
     a\<lparr>shape := rev (shape a),
       flat := map (\<lambda>k. flat a ! ravel (shape a) (rev (unravel (rev (shape a)) k)))
                 [0 ..< prod_list (shape a)]\<rparr>"

section \<open>get (datasets.py, lines 90--125)\<close>

text \<open>The three files of a dataset: lines 93, 94 and 99 (and 137, 138 in read).\<close>

definition data_path_of :: "'a env \<Rightarrow> string \<Rightarrow> string" where
  "data_path_of E dataset = os_path_join (DATA_DIR E) (dataset @ ''.npy'')"

definition labels_path_of :: "'a env \<Rightarrow> string \<Rightarrow> string" where
  "labels_path_of E dataset = os_path_join (DATA_DIR E) (dataset @ ''_labels.npy'')"

definition mat_path_of :: "'a env \<Rightarrow> string \<Rightarrow> string" where
  "mat_path_of E dataset = os_path_join (DATA_DIR E) (dataset @ ''.mat'')"

definition dict_get :: "('k \<times> 'v) list \<Rightarrow> 'k \<Rightarrow> error + 'v" where
  \<comment> \<open>the subscript \<^verbatim>\<open>D[k]\<close>\<close>
  "dict_get D k = (case map_of D k of None \<Rightarrow> Inl KeyError | Some v \<Rightarrow> Inr v)"

definition dict_set :: "('k \<times> 'v) list \<Rightarrow> 'k \<Rightarrow> 'v \<Rightarrow> ('k \<times> 'v) list" where
  \<comment> \<open>the assignment \<^verbatim>\<open>D[k] = v\<close>\<close>
  "dict_set D k v = (k, v) # filter (\<lambda>kv. fst kv \<noteq> k) D"

definition h5_items :: "'a env \<Rightarrow> (string \<times> 'a ndarray) list \<Rightarrow> (string \<times> 'a ndarray) list" where
  \<comment> \<open>lines 114--116: the loop over \<^verbatim>\<open>fp.items()\<close>, starting from the empty dict\<close>
  "h5_items E items =
     fold (\<lambda>(k, v) data_dict.
             if k \<in> set [''X'', ''y'']
             then dict_set data_dict k (np_transpose (np_asarray E v Float64))
             else data_dict)
          items []"

definition load_data_dict :: "'a env \<Rightarrow> 'a world \<Rightarrow> string \<Rightarrow> error + (string \<times> 'a ndarray) list" where
  \<comment> \<open>lines 107--116: \<^verbatim>\<open>loadmat\<close>, with the \<^verbatim>\<open>h5py\<close> fallback on the two caught exceptions\<close>
  "load_data_dict E s filename =
     (case files s filename of
        None \<Rightarrow> Inl OSError
      | Some c \<Rightarrow>
          (case loadmat E c of
             Inr data_dict \<Rightarrow> Inr data_dict
           | Inl e \<Rightarrow>
               if e = NotImplementedError \<or> e = MatReadError
               then (case h5py_File E c of
                       Inl e' \<Rightarrow> Inl e'
                     | Inr items \<Rightarrow> Inr (h5_items E items))
               else Inl e))"

definition get :: "'a env \<Rightarrow> 'a world \<Rightarrow> string \<Rightarrow> (error + unit) \<times> 'a world" where
  "get E s dataset =
     (case dict_get DATASET_LINKS dataset of
        Inl e \<Rightarrow> (Inl e, s)
      | Inr link \<Rightarrow>
          let data_path = data_path_of E dataset;
              labels_path = labels_path_of E dataset;
              s1 = (if \<not> os_path_exists s (DATA_DIR E) then os_makedirs s (DATA_DIR E) else s);
              filename = mat_path_of E dataset;
              s2 = (if \<not> os_path_exists s1 filename
                    then subprocess_run_wget E s1 link filename else s1)
          in if \<not> os_path_exists s2 filename then (Inl ValueError, s2)
             else if dataset \<in> set (keys DATASET_LINKS) then
               (case load_data_dict E s2 filename of
                  Inl e \<Rightarrow> (Inl e, s2)
                | Inr data_dict \<Rightarrow>
                    (case dict_get data_dict ''X'' of
                       Inl e \<Rightarrow> (Inl e, s2)
                     | Inr X \<Rightarrow>
                         let s3 = np_save s2 data_path (np_asarray E X Float32)
                         in (case dict_get data_dict ''y'' of
                               Inl e \<Rightarrow> (Inl e, s3)
                             | Inr y \<Rightarrow>
                                 (Inr (), np_save s3 labels_path (np_asarray E y UInt8)))))
             else if dataset \<notin> set OTHER_DATASETS then (Inl ValueError, s2)
             else (Inr (), s2))"


text \<open>The state in which get parses the raw file: lines 96--101.\<close>

definition fetched :: "'a env \<Rightarrow> 'a world \<Rightarrow> string \<Rightarrow> string \<Rightarrow> 'a world" where
  "fetched E s link dataset =
     (let s1 = (if \<not> os_path_exists s (DATA_DIR E) then os_makedirs s (DATA_DIR E) else s)
      in if \<not> os_path_exists s1 (mat_path_of E dataset)
         then subprocess_run_wget E s1 link (mat_path_of E dataset) else s1)"

section \<open>Python numbers\<close>

text \<open>
  Python's \<^verbatim>\<open>float\<close> is IEEE 754 binary64. A finite float is a rational number, and
  every operation the code uses (the true division of two ints, the conversion of an int,
  the product of two floats) returns the exact result rounded to the nearest number with a
  53-bit significand, ties to the even significand. \<open>round_binary64\<close> is that rounding, for
  the normal range (magnitudes from \<open>2 powi -1022\<close> up to \<open>2 powi 1024\<close>, which is all a row
  count can reach); \<^verbatim>\<open>int(x)\<close> truncates towards zero.
\<close>

definition round_half_even :: "rat \<Rightarrow> int" where
  "round_half_even x =
     (let f = \<lfloor>x\<rfloor>; d = x - of_int f
      in if d < 1 / 2 then f else if 1 / 2 < d then f + 1 else if even f then f else f + 1)"

definition exponent2 :: "rat \<Rightarrow> int" where
  \<comment> \<open>for \<open>0 < x\<close>, the \<open>e\<close> with \<open>2 powi e \<le> x < 2 powi (e + 1)\<close>\<close>
  "exponent2 x =
     (case quotient_of x of
        (p, q) \<Rightarrow> let d = bitlen p - bitlen q in if x < 2 powi d then d - 1 else d)"

definition round_binary64 :: "rat \<Rightarrow> rat" where
  "round_binary64 x =
     (if x = 0 then 0
      else let a = \<bar>x\<bar>; u = 2 powi (exponent2 a - 52)
           in sgn x * (of_int (round_half_even (a / u)) * u))"

definition py_float :: "int \<Rightarrow> rat" where
  \<comment> \<open>the conversion of an int operand in a mixed product\<close>
  "py_float i = round_binary64 (of_int i)"

definition py_truediv :: "int \<Rightarrow> int \<Rightarrow> error + rat" where
  \<comment> \<open>\<^verbatim>\<open>a / b\<close> on ints\<close>
  "py_truediv a b = (if b = 0 then Inl ZeroDivisionError else Inr (round_binary64 (of_int a / of_int b)))"

definition py_float_mul :: "rat \<Rightarrow> rat \<Rightarrow> rat" where
  "py_float_mul x y = round_binary64 (x * y)"

definition py_int :: "rat \<Rightarrow> int" where
  \<comment> \<open>\<^verbatim>\<open>int(x)\<close> on a float\<close>
  "py_int x = (if 0 \<le> x then \<lfloor>x\<rfloor> else \<lceil>x\<rceil>)"

section \<open>read (datasets.py, lines 128--159)\<close>

subsection \<open>The numpy operations of read\<close>

definition np_row :: "'a ndarray \<Rightarrow> nat list \<Rightarrow> nat \<Rightarrow> 'a list" where
  \<comment> \<open>the elements of entry \<open>i\<close> along the first axis, the other axes being \<open>ds\<close>\<close>
  "np_row a ds i = take (prod_list ds) (drop (i * prod_list ds) (flat a))"

definition np_iter :: "'a ndarray \<Rightarrow> error + 'a list list" where
  \<comment> \<open>iteration over an array: its entries along the first axis; a 0-d array is not iterable\<close>
  "np_iter a =
     (case shape a of
        [] \<Rightarrow> Inl TypeError
      | n # ds \<Rightarrow> Inr (map (np_row a ds) [0 ..< n]))"

definition truth_eq :: "'a env \<Rightarrow> 'a list \<Rightarrow> int \<Rightarrow> error + bool" where
  \<comment> \<open>the truth value of \<^verbatim>\<open>j == c\<close>: that of its only element; an empty comparison is
      false, one with several elements is ambiguous\<close>
  "truth_eq E j c =
     (case j of
        [] \<Rightarrow> Inr False
      | [x] \<Rightarrow> Inr (equals_int E x c)
      | x # y # zs \<Rightarrow> Inl ValueError)"

fun indices_where :: "'a env \<Rightarrow> int \<Rightarrow> nat \<Rightarrow> 'a list list \<Rightarrow> error + nat list" where
  \<comment> \<open>\<^verbatim>\<open>[i for i, j in enumerate(labels) if j == c]\<close>, counting from \<open>i\<close>\<close>
  "indices_where E c i [] = Inr []"
| "indices_where E c i (j # js) =
     (case truth_eq E j c of
        Inl e \<Rightarrow> Inl e
      | Inr b \<Rightarrow>
          (case indices_where E c (Suc i) js of
             Inl e \<Rightarrow> Inl e
           | Inr is \<Rightarrow> Inr (if b then i # is else is)))"

fun draw :: "(nat \<Rightarrow> nat) \<Rightarrow> nat \<Rightarrow> 'b list \<Rightarrow> nat \<Rightarrow> 'b list" where
  \<comment> \<open>\<open>k\<close> elements without replacement: each random number selects one of the elements
      still left\<close>
  "draw g p pop 0 = []"
| "draw g p pop (Suc k) =
     (let j = g p mod length pop
      in pop ! j # draw g (Suc p) (take j pop @ drop (Suc j) pop) k)"

definition np_random_choice ::
  "'a env \<Rightarrow> 'a world \<Rightarrow> 'b list \<Rightarrow> int \<Rightarrow> (error + 'b list) \<times> 'a world" where
  \<comment> \<open>\<^verbatim>\<open>list(np.random.choice(pop, k, replace=False))\<close>\<close>
  "np_random_choice E s pop k =
     (let s' = s\<lparr>trace := trace s @ [RandomChoice (length pop) k]\<rparr>
      in if k < 0 then (Inl ValueError, s')
         else if int (length pop) < k then (Inl ValueError, s')
         else (Inr (draw (rng E) (rng_pos s) pop (nat k)),
               s'\<lparr>rng_pos := rng_pos s + nat k\<rparr>))"

definition np_index_rows :: "'a ndarray \<Rightarrow> nat list \<Rightarrow> error + 'a ndarray" where
  \<comment> \<open>\<^verbatim>\<open>a[samples]\<close> with a list of indices\<close>
  "np_index_rows a samples =
     (case shape a of
        [] \<Rightarrow> Inl IndexError
      | n # ds \<Rightarrow>
          if list_all (\<lambda>i. i < n) samples
          then Inr (a\<lparr>shape := length samples # ds,
                      flat := concat (map (np_row a ds) samples)\<rparr>)
          else Inl IndexError)"

definition np_squeeze :: "'a ndarray \<Rightarrow> 'a ndarray" where
  "np_squeeze a = a\<lparr>shape := filter (\<lambda>d. d \<noteq> 1) (shape a)\<rparr>"

subsection \<open>The steps of read\<close>

definition sample_size :: "int \<Rightarrow> nat \<Rightarrow> nat \<Rightarrow> error + int" where
  \<comment> \<open>\<^verbatim>\<open>int(subsample * (len(cls) / data.shape[0]))\<close>\<close>
  "sample_size subsample len_cls n =
     (case py_truediv (int len_cls) (int n) of
        Inl e \<Rightarrow> Inl e
      | Inr q \<Rightarrow> Inr (py_int (py_float_mul (py_float subsample) q)))"

definition subsample_rows ::
  "'a env \<Rightarrow> 'a world \<Rightarrow> 'a ndarray \<Rightarrow> 'a ndarray \<Rightarrow> int \<Rightarrow> nat \<Rightarrow>
   (error + 'a ndarray \<times> 'a ndarray) \<times> 'a world" where
  \<comment> \<open>lines 147--154, with \<open>n\<close> for \<^verbatim>\<open>data.shape[0]\<close>\<close>
  "subsample_rows E s data labels subsample n =
     (case np_iter labels of
        Inl e \<Rightarrow> (Inl e, s)
      | Inr js \<Rightarrow>
     (case indices_where E 1 0 js of
        Inl e \<Rightarrow> (Inl e, s)
      | Inr outliers \<Rightarrow>
     (case indices_where E 0 0 js of
        Inl e \<Rightarrow> (Inl e, s)
      | Inr inliers \<Rightarrow>
     (case sample_size subsample (length outliers) n of
        Inl e \<Rightarrow> (Inl e, s)
      | Inr k_out \<Rightarrow>
     (case np_random_choice E s outliers k_out of
        (Inl e, s1) \<Rightarrow> (Inl e, s1)
      | (Inr samples_out, s1) \<Rightarrow>
     (case sample_size subsample (length inliers) n of
        Inl e \<Rightarrow> (Inl e, s1)
      | Inr k_in \<Rightarrow>
     (case np_random_choice E s1 inliers (1 + k_in) of
        (Inl e, s2) \<Rightarrow> (Inl e, s2)
      | (Inr samples_in, s2) \<Rightarrow>
     (let samples = samples_out @ samples_in
      in case np_index_rows data samples of
           Inl e \<Rightarrow> (Inl e, s2)
         | Inr data' \<Rightarrow>
        (case np_index_rows labels samples of
           Inl e \<Rightarrow> (Inl e, s2)
         | Inr labels' \<Rightarrow>
             (Inr (np_asarray E data' Float64, np_asarray E labels' Int64), s2))))))))))"

definition subsample_step ::
  "'a env \<Rightarrow> 'a world \<Rightarrow> 'a ndarray \<Rightarrow> 'a ndarray \<Rightarrow> int option \<Rightarrow>
   (error + 'a ndarray \<times> 'a ndarray) \<times> 'a world" where
  \<comment> \<open>line 146: the guard of the subsampling block\<close>
  "subsample_step E s data labels subsample =
     (case subsample of
        None \<Rightarrow> (Inr (data, labels), s)
      | Some k \<Rightarrow>
          (case shape data of
             [] \<Rightarrow> (Inl IndexError, s)
           | n # ds \<Rightarrow>
               if k < int n then subsample_rows E s data labels k n
               else (Inr (data, labels), s)))"

definition normalize_step :: "'a env \<Rightarrow> 'a ndarray \<Rightarrow> string option \<Rightarrow> error + 'a ndarray" where
  \<comment> \<open>lines 156--157\<close>
  "normalize_step E data normalization_mode =
     (case normalization_mode of
        None \<Rightarrow> Inr data
      | Some mode \<Rightarrow> normalize_fn E data mode)"

definition read ::
  "'a env \<Rightarrow> 'a world \<Rightarrow> string \<Rightarrow> string option \<Rightarrow> int option \<Rightarrow>
   (error + 'a ndarray \<times> 'a ndarray) \<times> 'a world" where
  "read E s dataset normalization_mode subsample =
     (let data_path = data_path_of E dataset;
          labels_path = labels_path_of E dataset
      in case (if \<not> os_path_exists s data_path then get E s dataset else (Inr (), s)) of
           (Inl e, s1) \<Rightarrow> (Inl e, s1)
         | (Inr u, s1) \<Rightarrow>
        (case np_load s1 data_path of
           Inl e \<Rightarrow> (Inl e, s1)
         | Inr data \<Rightarrow>
        (case np_load s1 labels_path of
           Inl e \<Rightarrow> (Inl e, s1)
         | Inr labels \<Rightarrow>
        (case subsample_step E s1 data labels subsample of
           (Inl e, s2) \<Rightarrow> (Inl e, s2)
         | (Inr (data', labels'), s2) \<Rightarrow>
        (case normalize_step E data' normalization_mode of
           Inl e \<Rightarrow> (Inl e, s2)
         | Inr data'' \<Rightarrow>
             (Inr (np_asarray E data'' Float32,
                   np_asarray E (np_squeeze labels') UInt8), s2))))))"

section \<open>embed_umap (plot.py, lines 104--140)\<close>

text \<open>
  The embedding files are raw files of float32 values. A float32 value is kept as its 32-bit
  pattern, and a file as its bytes; a value occupies four bytes, least significant first.
  The trace records each run of UMAP and each file that is opened for writing.
\<close>

datatype plot_event = UmapFit | OpenWrite string

record plot_world =
  pfiles :: "string \<Rightarrow> string option"
  pdirs :: "string set"
  ptrace :: "plot_event list"


definition path_exists :: "plot_world \<Rightarrow> string \<Rightarrow> bool" where
  \<comment> \<open>\<^verbatim>\<open>os.path.exists\<close>\<close>
  "path_exists s p = (case pfiles s p of Some c \<Rightarrow> True | None \<Rightarrow> p \<in> pdirs s)"








section \<open>roc_curve (plot.py, lines 14--16 and 43--78)\<close>

text \<open>
  What \<^verbatim>\<open>roc_curve\<close> takes from outside \<^verbatim>\<open>plot.py\<close>: the constant
  \<^verbatim>\<open>utils.PLOTS_PATH\<close>, \<^verbatim>\<open>sklearn.metrics\<close> (the curve and the area under it, in one
  step), the text that \<^verbatim>\<open>.16f\<close> gives for a score, and the bytes that matplotlib saves for
  the figure. Scores and areas are floats; they are kept as values of an arbitrary type.
\<close>

record 'r roc_env =
  PLOTS_PATH :: string
  metrics_auc :: "int list \<Rightarrow> 'r list \<Rightarrow> error + 'r"
  format_16f :: "'r \<Rightarrow> string"
  savefig_bytes :: "string"

function str_nat :: "nat \<Rightarrow> string" where
  "str_nat n = (if n < 10 then [char_of (48 + n)] else str_nat (n div 10) @ [char_of (48 + n mod 10)])"
  by pat_completeness auto
termination
  by (relation "measure id") auto

declare str_nat.simps [simp del]

definition str_int :: "int \<Rightarrow> string" where
  \<comment> \<open>\<^verbatim>\<open>str(depth)\<close>\<close>
  "str_int i = (if i < 0 then ''-'' @ str_nat (nat (- i)) else str_nat (nat i))"

fun str_join :: "string \<Rightarrow> string list \<Rightarrow> string" where
  "str_join sep [] = []"
| "str_join sep [x] = x"
| "str_join sep (x # y # ys) = x @ sep @ str_join sep (y # ys)"

definition list_index :: "'b list \<Rightarrow> int \<Rightarrow> error + 'b" where
  \<comment> \<open>\<^verbatim>\<open>xs[k]\<close> on a sequence: a negative index counts from the end\<close>
  "list_index xs k =
     (if 0 \<le> k \<and> k < int (length xs) then Inr (xs ! nat k)
      else if k < 0 \<and> - k \<le> int (length xs) then Inr (xs ! nat (int (length xs) + k))
      else Inl IndexError)"

fun collect_labels :: "int list \<Rightarrow> (int \<times> 'r) list \<Rightarrow> error + int list" where
  \<comment> \<open>line 46, the labels: \<^verbatim>\<open>true_labels[k]\<close> for every item of \<^verbatim>\<open>anomalies\<close>\<close>
  "collect_labels true_labels [] = Inr []"
| "collect_labels true_labels ((k, v) # items) =
     (case list_index true_labels k of
        Inl e \<Rightarrow> Inl e
      | Inr l \<Rightarrow>
          (case collect_labels true_labels items of
             Inl e \<Rightarrow> Inl e
           | Inr ls \<Rightarrow> Inr (l # ls)))"

definition directory_of :: "'r roc_env \<Rightarrow> string \<Rightarrow> string \<Rightarrow> string \<Rightarrow> string" where
  \<comment> \<open>\<^verbatim>\<open>_directory\<close>\<close>
  "directory_of E dataset metric method =
     os_path_join (os_path_join (os_path_join (PLOTS_PATH E) dataset) metric) method"

definition csv_line :: "'r roc_env \<Rightarrow> (int \<times> 'r) list \<Rightarrow> int \<Rightarrow> string" where
  \<comment> \<open>lines 75--76: the scores in the order of their keys, joined by underscores\<close>
  "csv_line E anomalies depth =
     str_int depth @ '','' @ str_join ''_'' (map (\<lambda>(i, s). format_16f E s) (sort_key fst anomalies))
       @ [CHR 0x0A]"

definition roc_curve ::
  "'r roc_env \<Rightarrow> plot_world \<Rightarrow> int list \<Rightarrow> (int \<times> 'r) list \<Rightarrow> string \<Rightarrow> string \<Rightarrow> string \<Rightarrow> int \<Rightarrow> bool \<Rightarrow>
   (error + 'r) \<times> plot_world" where
  "roc_curve E s true_labels anomalies dataset metric method depth save =
     (case collect_labels true_labels anomalies of
        Inl e \<Rightarrow> (Inl e, s)
      | Inr y_true \<Rightarrow>
     (case metrics_auc E y_true (map snd anomalies) of
        Inl e \<Rightarrow> (Inl e, s)
      | Inr auc \<Rightarrow>
     (let directory = directory_of E dataset metric method
      in case pfiles s directory of
           Some c \<Rightarrow> (Inl OSError, s)
         | None \<Rightarrow>
        (let s1 = s\<lparr>pdirs := insert directory (pdirs s)\<rparr>;
             s2 = (if save
                   then s1\<lparr>pfiles := (pfiles s1)(os_path_join directory (str_int depth @ ''-roc.png'')
                                                     \<mapsto> savefig_bytes E),
                           ptrace := ptrace s1 @ [OpenWrite (os_path_join directory (str_int depth @ ''-roc.png''))]\<rparr>
                   else s1);
             csv_filepath = os_path_join directory ''roc.csv'';
             s3 = (if \<not> path_exists s2 csv_filepath
                   then s2\<lparr>pfiles := (pfiles s2)(csv_filepath \<mapsto> ''depth,scores'' @ [CHR 0x0A]),
                           ptrace := ptrace s2 @ [OpenWrite csv_filepath]\<rparr>
                   else s2)
         in case pfiles s3 csv_filepath of
              None \<Rightarrow> (Inl OSError, s3)
            | Some old \<Rightarrow>
                (Inr auc,
                 s3\<lparr>pfiles := (pfiles s3)(csv_filepath \<mapsto> old @ csv_line E anomalies depth),
                    ptrace := ptrace s3 @ [OpenWrite csv_filepath]\<rparr>)))))"

section \<open>Example environments\<close>

text \<open>
  Concrete environments on which the theorems below are instantiated. Array elements are
  integers, conversions keep the value, the data directory is \<^verbatim>\<open>d\<close>, every download
  succeeds, and the downloaded file parses to four one-attribute instances with their labels.
\<close>

definition demo_X :: "int ndarray" where
  "demo_X = \<lparr>dtype = Float64, shape = [4, 1], flat = [10, 20, 30, 40]\<rparr>"

definition demo_y :: "int ndarray" where
  "demo_y = \<lparr>dtype = Float64, shape = [4, 1], flat = [0, 1, 0, 0]\<rparr>"

definition demo_env :: "int env" where
  "demo_env =
     \<lparr>DATA_DIR = ''d'',
      wget = (\<lambda>link. Some ''mat''),
      loadmat = (\<lambda>c. Inr [(''X'', demo_X), (''y'', demo_y)]),
      h5py_File = (\<lambda>c. Inl OSError),
      normalize_fn = (\<lambda>a mode. Inr a),
      convert = (\<lambda>d d' x. x),
      equals_int = (\<lambda>x c. x = c),
      rng = (\<lambda>p. 0)\<rparr>"


definition empty_world :: "int world" where
  "empty_world = \<lparr>files = (\<lambda>p. None), dirs = {}, trace = [], rng_pos = 0\<rparr>"




text \<open>The state after the first successful get, and the two arrays it has cached.\<close>

definition cached_world :: "int world" where
  "cached_world = snd (get demo_env empty_world ''wine'')"

definition cached_data :: "int ndarray" where
  "cached_data = \<lparr>dtype = Float32, shape = [4, 1], flat = [10, 20, 30, 40]\<rparr>"

definition cached_labels :: "int ndarray" where
  "cached_labels = \<lparr>dtype = UInt8, shape = [4, 1], flat = [0, 1, 0, 0]\<rparr>"



section \<open>Verified properties\<close>

subsection \<open>The registry\<close>

lemma registry_check:
  "list_all (\<lambda>k. length (lookups DATASET_LINKS k) = 1 \<and> length (lookups SHORT_NAMES k) = 1)
     (keys DATASET_LINKS)"
  by (simp add: keys_def lookups_def DATASET_LINKS_def SHORT_NAMES_def)

lemma lookups_single: "length (lookups D k) = 1 \<Longrightarrow> \<exists>v. lookups D k = [v] \<and> dict_get D k = Inr v"
proof (induction D)
  case Nil then show ?case by (simp add: lookups_def)
next
  case (Cons kv D)
  obtain a b where kv: "kv = (a, b)" by (cases kv)
  show ?case
  proof (cases "a = k")
    case True
    with Cons.prems kv have "lookups D k = []" by (simp add: lookups_def)
    with True kv show ?thesis by (simp add: lookups_def dict_get_def)
  next
    case False
    with Cons.prems kv have "length (lookups D k) = 1" by (simp add: lookups_def)
    from Cons.IH[OF this] False kv show ?thesis by (auto simp: lookups_def dict_get_def)
  qed
qed

text \<open>
  Claim C9. Every key of \<open>DATASET_LINKS\<close> has exactly one entry in \<open>DATASET_LINKS\<close>, its
  URL, and exactly one entry in \<open>SHORT_NAMES\<close>, its short display label; both subscripts
  succeed with that entry.
\<close>

theorem registry_one_url_one_short_name:
  assumes "k \<in> set (keys DATASET_LINKS)"
  shows "(\<exists>url. lookups DATASET_LINKS k = [url] \<and> dict_get DATASET_LINKS k = Inr url) \<and>
         (\<exists>label. lookups SHORT_NAMES k = [label] \<and> dict_get SHORT_NAMES k = Inr label)"
  using registry_check assms by (auto simp: list_all_iff intro: lookups_single)

text \<open>The theorem at the last key of the registry.\<close>

theorem registry_one_url_one_short_name_witness:
  "''wine'' \<in> set (keys DATASET_LINKS) \<and>
   (\<exists>url. lookups DATASET_LINKS ''wine'' = [url] \<and> dict_get DATASET_LINKS ''wine'' = Inr url) \<and>
   (\<exists>label. lookups SHORT_NAMES ''wine'' = [label] \<and> dict_get SHORT_NAMES ''wine'' = Inr label)"
proof -
  have a: "''wine'' \<in> set (keys DATASET_LINKS)" by (simp add: keys_def DATASET_LINKS_def)
  show ?thesis using a registry_one_url_one_short_name[OF a] by simp
qed

subsection \<open>Names without a download link\<close>

lemma dict_get_absent: "k \<notin> set (keys D) \<Longrightarrow> dict_get D k = Inl KeyError"
  using map_of_eq_None_iff[of D k] by (simp add: dict_get_def keys_def)

lemma dict_get_present: "k \<in> set (keys D) \<Longrightarrow> \<exists>v. dict_get D k = Inr v"
  using map_of_eq_None_iff[of D k] by (cases "map_of D k") (simp_all add: dict_get_def keys_def)

text \<open>
  Claim C4. For a name that is neither in the download registry nor in the no-download list,
  get raises a lookup error and leaves the whole state as it was: no directory, no raw file
  and no cache file is created, and nothing is added to the trace.
\<close>

theorem get_unknown_name:
  assumes "dataset \<notin> set (keys DATASET_LINKS)" and "dataset \<notin> set OTHER_DATASETS"
  shows "\<exists>e. get E s dataset = (Inl e, s) \<and> is_lookup_error e"
  using assms(1) by (simp add: get_def dict_get_absent)

text \<open>The theorem at a name that is in neither table.\<close>

theorem get_unknown_name_witness:
  "''iris'' \<notin> set (keys DATASET_LINKS) \<and> ''iris'' \<notin> set OTHER_DATASETS \<and>
   (\<exists>e. get demo_env empty_world ''iris'' = (Inl e, empty_world) \<and> is_lookup_error e)"
proof -
  have a: "''iris'' \<notin> set (keys DATASET_LINKS)" by (simp add: keys_def DATASET_LINKS_def)
  have b: "''iris'' \<notin> set OTHER_DATASETS" by (simp add: OTHER_DATASETS_def)
  show ?thesis using a b get_unknown_name[OF a b, of demo_env empty_world] by simp
qed

text \<open>
  Claim C1, at the input where the code departs from it. The claim says that get fails with a
  lookup error exactly for the names in neither table, and that a name of the no-download list
  does not fail at the URL lookup. The code looks the URL up first (line 92), before the test
  of line 121 that lets the names of the no-download list through: for the first of them, in
  every environment and every state, get raises \<^verbatim>\<open>KeyError\<close> and changes nothing.
\<close>

theorem get_other_dataset:
  "''backdoor'' \<in> set OTHER_DATASETS \<and> get E s ''backdoor'' = (Inl KeyError, s) \<and>
   is_lookup_error KeyError"
  by (simp add: OTHER_DATASETS_def get_def dict_get_def DATASET_LINKS_def)

subsection \<open>Rounding to binary64\<close>



lemma exponent2_less:
  assumes "0 < x" shows "x < 2 powi (exponent2 x + 1)"
proof -
  obtain p q where pq: "quotient_of x = (p, q)" by (cases "quotient_of x")
  have q: "0 < q" using pq by (rule quotient_of_denom_pos)
  have x: "x = of_int p / of_int q" using pq by (rule quotient_of_div)
  have p: "0 < p" using assms q unfolding x by (simp add: zero_less_divide_iff)
  define d where "d = bitlen p - bitlen q"
  show ?thesis
  proof (cases "x < 2 powi d")
    case True
    then show ?thesis by (simp add: exponent2_def pq d_def)
  next
    case False
    have bp: "1 \<le> bitlen p" using p bitlen_eq_zero_iff[of p] bitlen_nonneg[of p] by linarith
    have bq: "1 \<le> bitlen q" using q bitlen_eq_zero_iff[of q] bitlen_nonneg[of q] by linarith
    have "p < 2 ^ nat (bitlen p)" using bitlen_bounds[OF p] by simp
    then have "(of_int p :: rat) < of_int ((2::int) ^ nat (bitlen p))" by (simp only: of_int_less_iff)
    then have up: "(of_int p :: rat) < 2 powi (bitlen p)"
      using bp by (simp add: power_int_def)
    have "(2::int) ^ nat (bitlen q - 1) \<le> q" using bitlen_bounds[OF q] by simp
    then have "(of_int ((2::int) ^ nat (bitlen q - 1)) :: rat) \<le> of_int q" by (simp only: of_int_le_iff)
    then have lq: "(2::rat) powi (bitlen q - 1) \<le> of_int q"
      using bq by (simp add: power_int_def)
    have "of_int p / of_int q < 2 powi (bitlen p) / (of_int q :: rat)"
      using up q by (simp add: divide_strict_right_mono)
    also have "\<dots> \<le> 2 powi (bitlen p) / 2 powi (bitlen q - 1)"
      using lq q by (intro divide_left_mono) simp_all
    also have "\<dots> = 2 powi (bitlen p - (bitlen q - 1))"
      by (subst power_int_diff) simp_all
    also have "bitlen p - (bitlen q - 1) = d + 1" by (simp add: d_def)
    finally have "x < 2 powi (d + 1)" unfolding x .
    with False show ?thesis by (simp add: exponent2_def pq d_def)
  qed
qed



text \<open>
  Four roundings that Python shows as \<^verbatim>\<open>0.1\<close>, \<^verbatim>\<open>1/3\<close>, \<^verbatim>\<open>float(2**53 + 1)\<close> and
  \<^verbatim>\<open>49 * (1/49)\<close>, the last of which is below 1.
\<close>

lemma round_binary64_examples:
  "round_binary64 (1 / 10) = 3602879701896397 / 2 ^ 55"
  "round_binary64 (1 / 3) = 6004799503160661 / 2 ^ 54"
  "round_binary64 (2 ^ 53 + 1) = 2 ^ 53"
  "py_float_mul 49 (round_binary64 (1 / 49)) = 1 - 1 / 2 ^ 53"
  by code_simp+



subsection \<open>Sizes of the stratified subsample\<close>




text \<open>
  The two sizes are what read asks of \<^verbatim>\<open>np.random.choice\<close>: first the outliers, then the
  inliers.
\<close>

lemma subsample_rows_requests:
  assumes "np_iter labels = Inr js"
    and "indices_where E 1 0 js = Inr outliers" and "indices_where E 0 0 js = Inr inliers"
    and "sample_size k (length outliers) n = Inr k_out"
    and "sample_size k (length inliers) n = Inr k_in"
    and "0 \<le> k_out" and "k_out \<le> int (length outliers)"
  shows "trace (snd (subsample_rows E s data labels k n)) =
           trace s @ [RandomChoice (length outliers) k_out, RandomChoice (length inliers) (1 + k_in)]"
  using assms unfolding subsample_rows_def Let_def np_random_choice_def
  by (auto split: sum.splits prod.splits)

text \<open>
  The bound on the number of rows is needed: at \<open>2 ^ 60\<close> rows with one outlier and a subsample
  of \<open>2 ^ 60 - 1\<close>, both the subsample value and the share of the inliers are rounded up, and
  the size computed for the inliers is \<open>2 ^ 60\<close>, more than there are.
\<close>

lemma sample_size_rounded_up:
  "sample_size (2 ^ 60 - 1) (2 ^ 60 - 1) (2 ^ 60) = Inr (2 ^ 60)"
proof -
  have a: "int (2 ^ 60 - 1) = 2 ^ 60 - 1" "int (2 ^ 60) = 2 ^ 60" by simp_all
  have b: "py_truediv (2 ^ 60 - 1) (2 ^ 60) = Inr (round_binary64 ((2 ^ 60 - 1) / 2 ^ 60))"
    by (simp add: py_truediv_def)
  have c: "py_int (py_float_mul (py_float (2 ^ 60 - 1)) (round_binary64 ((2 ^ 60 - 1) / 2 ^ 60))) = 2 ^ 60"
    by code_simp
  show ?thesis unfolding sample_size_def a b using c by simp
qed

subsection \<open>Paths\<close>

lemma os_path_join_suffix: "suffix b (os_path_join a b)"
  by (simp add: os_path_join_def suffix_def)

lemma os_path_join_last: "b \<noteq> [] \<Longrightarrow> last (os_path_join a b) = last b"
  by (simp add: os_path_join_def)

lemma npy_name_data_path [simp]: "npy_name (data_path_of E ds) = data_path_of E ds"
proof -
  have "suffix ''.npy'' (ds @ ''.npy'')" by (simp add: suffix_def)
  then have "suffix ''.npy'' (data_path_of E ds)"
    unfolding data_path_of_def using os_path_join_suffix suffix_order.trans by blast
  then show ?thesis by (simp add: npy_name_def)
qed

lemma npy_name_labels_path [simp]: "npy_name (labels_path_of E ds) = labels_path_of E ds"
proof -
  have "suffix ''.npy'' (ds @ ''_labels.npy'')" by (simp add: suffix_def)
  then have "suffix ''.npy'' (labels_path_of E ds)"
    unfolding labels_path_of_def using os_path_join_suffix suffix_order.trans by blast
  then show ?thesis by (simp add: npy_name_def)
qed

lemma mat_path_neq [simp]:
  "mat_path_of E ds \<noteq> data_path_of E ds" "mat_path_of E ds \<noteq> labels_path_of E ds"
proof -
  have "last (mat_path_of E ds) = CHR ''t''" by (simp add: mat_path_of_def os_path_join_last)
  moreover have "last (data_path_of E ds) = CHR ''y''" by (simp add: data_path_of_def os_path_join_last)
  moreover have "last (labels_path_of E ds) = CHR ''y''" by (simp add: labels_path_of_def os_path_join_last)
  ultimately show "mat_path_of E ds \<noteq> data_path_of E ds" "mat_path_of E ds \<noteq> labels_path_of E ds"
    by auto
qed


subsection \<open>What the steps of read change\<close>

lemma np_random_choice_state:
  assumes "np_random_choice E s pop k = (r, s')"
  shows "files s' = files s \<and> dirs s' = dirs s \<and> filter is_write (trace s') = filter is_write (trace s)"
  using assms by (auto simp: np_random_choice_def Let_def split: if_splits)

lemma length_draw [simp]: "length (draw g p pop m) = m"
  by (induction m arbitrary: p pop) (simp_all add: Let_def)

lemma np_random_choice_length:
  assumes "np_random_choice E s pop k = (Inr xs, s')"
  shows "int (length xs) = k"
  using assms by (auto simp: np_random_choice_def Let_def split: if_splits)

lemma subsample_rows_state:
  assumes "subsample_rows E s data labels k n = (r, s')"
  shows "files s' = files s \<and> dirs s' = dirs s \<and> filter is_write (trace s') = filter is_write (trace s)"
proof -
  have two: "files s2 = files s \<and> dirs s2 = dirs s \<and> filter is_write (trace s2) = filter is_write (trace s)"
    if "np_random_choice E s pop1 k1 = (r1, s1)" "np_random_choice E s1 pop2 k2 = (r2, s2)"
    for pop1 pop2 :: "nat list" and k1 k2 r1 r2 s1 s2
    using np_random_choice_state[OF that(1)] np_random_choice_state[OF that(2)] by simp
  from assms show ?thesis
    unfolding subsample_rows_def Let_def
    by (auto split: sum.splits prod.splits dest: np_random_choice_state two)
qed

lemma subsample_step_state:
  assumes "subsample_step E s data labels sub = (r, s')"
  shows "files s' = files s \<and> dirs s' = dirs s \<and> filter is_write (trace s') = filter is_write (trace s)"
  using assms unfolding subsample_step_def
  by (auto split: option.splits list.splits if_splits dest: subsample_rows_state)

lemma read_cached_state:
  assumes "os_path_exists s (data_path_of E ds)" and "read E s ds mode sub = (r, s')"
  shows "files s' = files s \<and> dirs s' = dirs s \<and> filter is_write (trace s') = filter is_write (trace s)"
  using assms unfolding read_def Let_def
  by (auto split: sum.splits prod.splits dest: subsample_step_state)


subsection \<open>get on a name of the registry\<close>

lemma dict_get_Inr_keys: "dict_get D k = Inr v \<Longrightarrow> k \<in> set (keys D)"
  using dict_get_absent[of k D] by auto

lemma load_data_dict_cong:
  "files t f = files s f \<Longrightarrow> load_data_dict E t f = load_data_dict E s f"
  by (simp add: load_data_dict_def)

lemma os_path_exists_cong:
  "files t p = files s p \<Longrightarrow> dirs t = dirs s \<Longrightarrow> os_path_exists t p = os_path_exists s p"
  by (simp add: os_path_exists_def split: option.splits)

lemma get_success:
  assumes "get E s ds = (Inr (), s1)"
  obtains link dd X y where
    "dict_get DATASET_LINKS ds = Inr link"
    "os_path_exists (fetched E s link ds) (mat_path_of E ds)"
    "os_path_exists (fetched E s link ds) (DATA_DIR E)"
    "load_data_dict E (fetched E s link ds) (mat_path_of E ds) = Inr dd"
    "dict_get dd ''X'' = Inr X" "dict_get dd ''y'' = Inr y"
    "s1 = np_save (np_save (fetched E s link ds) (data_path_of E ds) (np_asarray E X Float32))
            (labels_path_of E ds) (np_asarray E y UInt8)"
proof -
  from assms obtain link where link: "dict_get DATASET_LINKS ds = Inr link"
    by (cases "dict_get DATASET_LINKS ds") (simp_all add: get_def)
  then have reg: "ds \<in> set (keys DATASET_LINKS)" by (rule dict_get_Inr_keys)
  let ?f = "fetched E s link ds"
  have g: "get E s ds =
     (if \<not> os_path_exists ?f (mat_path_of E ds) then (Inl ValueError, ?f)
      else case load_data_dict E ?f (mat_path_of E ds) of
             Inl e \<Rightarrow> (Inl e, ?f)
           | Inr data_dict \<Rightarrow>
               (case dict_get data_dict ''X'' of
                  Inl e \<Rightarrow> (Inl e, ?f)
                | Inr X \<Rightarrow>
                    (case dict_get data_dict ''y'' of
                       Inl e \<Rightarrow> (Inl e, np_save ?f (data_path_of E ds) (np_asarray E X Float32))
                     | Inr y \<Rightarrow>
                         (Inr (), np_save (np_save ?f (data_path_of E ds) (np_asarray E X Float32))
                                    (labels_path_of E ds) (np_asarray E y UInt8)))))"
    using link reg by (simp add: get_def fetched_def Let_def split: sum.splits)
  have ex: "os_path_exists ?f (mat_path_of E ds)"
    using assms unfolding g by (auto split: if_splits)
  have dir: "os_path_exists ?f (DATA_DIR E)"
    by (auto simp: fetched_def Let_def os_path_exists_def os_makedirs_def subprocess_run_wget_def
        split: option.splits)
  from assms ex obtain dd where dd: "load_data_dict E ?f (mat_path_of E ds) = Inr dd"
    unfolding g by (auto split: sum.splits)
  from assms ex dd obtain X where X: "dict_get dd ''X'' = Inr X"
    unfolding g by (auto split: sum.splits)
  from assms ex dd X obtain y where y: "dict_get dd ''y'' = Inr y"
    unfolding g by (auto split: sum.splits)
  from assms ex dd X y have "s1 = np_save (np_save ?f (data_path_of E ds) (np_asarray E X Float32))
            (labels_path_of E ds) (np_asarray E y UInt8)"
    unfolding g by simp
  with link ex dir dd X y show ?thesis by (rule that)
qed


lemma fetched_present:
  assumes "os_path_exists t (DATA_DIR E)" and "os_path_exists t (mat_path_of E ds)"
  shows "fetched E t link ds = t"
  using assms by (simp add: fetched_def)

lemma get_on_fetched:
  assumes link: "dict_get DATASET_LINKS ds = Inr link"
    and dir: "os_path_exists t (DATA_DIR E)" and mat: "os_path_exists t (mat_path_of E ds)"
    and dd: "load_data_dict E t (mat_path_of E ds) = Inr dd"
    and X: "dict_get dd ''X'' = Inr X" and y: "dict_get dd ''y'' = Inr y"
  shows "get E t ds = (Inr (), np_save (np_save t (data_path_of E ds) (np_asarray E X Float32))
                                  (labels_path_of E ds) (np_asarray E y UInt8))"
  using assms dict_get_Inr_keys[OF link] by (simp add: get_def Let_def)

lemma np_load_exists: "np_load s p = Inr a \<Longrightarrow> os_path_exists s p"
  by (auto simp: np_load_def os_path_exists_def split: option.splits)

subsection \<open>The example state\<close>

lemma demo_get: "get demo_env empty_world ''wine'' = (Inr (), cached_world)"
proof -
  have "fst (get demo_env empty_world ''wine'') = Inr ()" by code_simp
  then show ?thesis by (simp add: cached_world_def prod_eq_iff)
qed

lemma demo_load:
  "np_load cached_world (data_path_of demo_env ''wine'') = Inr cached_data"
  "np_load cached_world (labels_path_of demo_env ''wine'') = Inr cached_labels"
  by code_simp+

subsection \<open>Lifetime of the cache files\<close>

text \<open>
  Claim C2, as amended. Let get have succeeded for a dataset, and let \<open>t\<close> be any later state
  with the same files and directories. Then every read of the dataset from \<open>t\<close>, whatever its
  arguments and its outcome, leaves all files and directories as they are and adds no write to
  the trace; and every get of the dataset from \<open>t\<close> succeeds, saves the feature file and the
  label file once more, and leaves all files with the contents they had (both arrays are derived
  again from the raw file, which is still there).
\<close>

theorem cache_rewritten_by_get_only:
  assumes first: "get E s ds = (Inr (), s1)"
    and same: "files t = files s1" "dirs t = dirs s1"
  shows "(\<forall>mode sub r t'. read E t ds mode sub = (r, t') \<longrightarrow>
            files t' = files s1 \<and> dirs t' = dirs s1 \<and>
            filter is_write (trace t') = filter is_write (trace t)) \<and>
         (\<exists>t'. get E t ds = (Inr (), t') \<and> files t' = files s1 \<and> dirs t' = dirs s1 \<and>
            trace t' = trace t @ [Save (data_path_of E ds), Save (labels_path_of E ds)])"
proof -
  from first obtain link dd X y where
    link: "dict_get DATASET_LINKS ds = Inr link" and
    mat: "os_path_exists (fetched E s link ds) (mat_path_of E ds)" and
    dir: "os_path_exists (fetched E s link ds) (DATA_DIR E)" and
    dd: "load_data_dict E (fetched E s link ds) (mat_path_of E ds) = Inr dd" and
    X: "dict_get dd ''X'' = Inr X" and y: "dict_get dd ''y'' = Inr y" and
    s1: "s1 = np_save (np_save (fetched E s link ds) (data_path_of E ds) (np_asarray E X Float32))
            (labels_path_of E ds) (np_asarray E y UInt8)"
    by (rule get_success)
  let ?f = "fetched E s link ds"
  let ?dp = "data_path_of E ds" and ?lp = "labels_path_of E ds"
  let ?X = "np_asarray E X Float32" and ?y = "np_asarray E y UInt8"
  have files1: "files s1 = (files ?f)(?dp \<mapsto> Npy ?X, ?lp \<mapsto> Npy ?y)"
    and dirs1: "dirs s1 = dirs ?f"
    by (simp_all add: s1 np_save_def)
  have grow: "os_path_exists t p" if "os_path_exists ?f p" for p
    using that by (auto simp: os_path_exists_def same files1 dirs1 split: option.splits)
  have tdp: "os_path_exists t ?dp" by (simp add: os_path_exists_def same files1)
  have tmat: "files t (mat_path_of E ds) = files ?f (mat_path_of E ds)"
    by (simp add: same files1)
  have tdd: "load_data_dict E t (mat_path_of E ds) = Inr dd"
    using dd load_data_dict_cong[OF tmat] by simp
  have g: "get E t ds = (Inr (), np_save (np_save t ?dp ?X) ?lp ?y)"
    using link grow[OF dir] grow[OF mat] tdd X y by (rule get_on_fetched)
  have "files (np_save (np_save t ?dp ?X) ?lp ?y) = files s1"
    by (simp add: np_save_def same files1)
  moreover have "dirs (np_save (np_save t ?dp ?X) ?lp ?y) = dirs s1"
    by (simp add: np_save_def same)
  moreover have "trace (np_save (np_save t ?dp ?X) ?lp ?y) = trace t @ [Save ?dp, Save ?lp]"
    by (simp add: np_save_def)
  ultimately have second: "\<exists>t'. get E t ds = (Inr (), t') \<and> files t' = files s1 \<and> dirs t' = dirs s1 \<and>
            trace t' = trace t @ [Save ?dp, Save ?lp]"
    using g by simp
  have "files t' = files s1 \<and> dirs t' = dirs s1 \<and>
            filter is_write (trace t') = filter is_write (trace t)"
    if "read E t ds mode sub = (r, t')" for mode sub r t'
    using read_cached_state[OF tdp that] same by simp
  with second show ?thesis by blast
qed

text \<open>The theorem for the example state, \<open>t\<close> being the state right after the first get.\<close>

theorem cache_rewritten_by_get_only_witness:
  "get demo_env empty_world ''wine'' = (Inr (), cached_world) \<and>
   files (snd (read demo_env cached_world ''wine'' None (Some 3))) = files cached_world \<and>
   dirs (snd (read demo_env cached_world ''wine'' None (Some 3))) = dirs cached_world \<and>
   filter is_write (trace (snd (read demo_env cached_world ''wine'' None (Some 3)))) =
     filter is_write (trace cached_world) \<and>
   (\<exists>t'. get demo_env cached_world ''wine'' = (Inr (), t') \<and> files t' = files cached_world \<and>
            dirs t' = dirs cached_world \<and>
            trace t' = trace cached_world @
              [Save (data_path_of demo_env ''wine''), Save (labels_path_of demo_env ''wine'')])"
proof -
  have r: "read demo_env cached_world ''wine'' None (Some 3) =
      (fst (read demo_env cached_world ''wine'' None (Some 3)),
       snd (read demo_env cached_world ''wine'' None (Some 3)))"
    by simp
  from demo_get r cache_rewritten_by_get_only[OF demo_get refl refl] show ?thesis by blast
qed

text \<open>
  Claim C2 as stated fails: get tests only the raw file before it saves (lines 100, 118, 119).
  In the example, the first get makes the directory, downloads and saves both cache files;
  the second get succeeds as well and saves both cache files again.
\<close>

theorem cache_rewritten_by_get_only_counterexample:
  "fst (get demo_env empty_world ''wine'') = Inr () \<and>
   trace (snd (get demo_env empty_world ''wine'')) =
     [MakeDirs ''d'', Download ''https://www.dropbox.com/s/uvjaudt2uto7zal/wine.mat?dl=0'' ''d/wine.mat'',
      Save ''d/wine.npy'', Save ''d/wine_labels.npy''] \<and>
   fst (get demo_env (snd (get demo_env empty_world ''wine'')) ''wine'') = Inr () \<and>
   trace (snd (get demo_env (snd (get demo_env empty_world ''wine'')) ''wine'')) =
     [MakeDirs ''d'', Download ''https://www.dropbox.com/s/uvjaudt2uto7zal/wine.mat?dl=0'' ''d/wine.mat'',
      Save ''d/wine.npy'', Save ''d/wine_labels.npy'', Save ''d/wine.npy'', Save ''d/wine_labels.npy'']"
  by code_simp

subsection \<open>Element types and shape of the result of read\<close>

lemma np_asarray_shape [simp]: "shape (np_asarray E a d) = shape a"
  by (simp add: np_asarray_def)

lemma np_asarray_dtype [simp]: "dtype (np_asarray E a d) = d"
  by (simp add: np_asarray_def)

lemma np_index_rows_shape_tl:
  assumes "np_index_rows a xs = Inr b"
  shows "shape b = length xs # tl (shape a)"
  using assms by (auto simp: np_index_rows_def split: list.splits if_splits)

lemma subsample_rows_label_shape:
  assumes "subsample_rows E s data labels k m = (Inr (d', l'), s')"
  shows "\<exists>j. shape l' = j # tl (shape labels)"
  using assms unfolding subsample_rows_def Let_def
  by (auto split: sum.splits prod.splits dest!: np_index_rows_shape_tl)

lemma subsample_step_label_shape:
  assumes "subsample_step E s data labels sub = (Inr (d', l'), s')"
  shows "shape l' = shape labels \<or> (\<exists>j. shape l' = j # tl (shape labels))"
  using assms unfolding subsample_step_def
  by (auto split: option.splits list.splits if_splits dest: subsample_rows_label_shape)

lemma read_success:
  assumes "read E s ds mode sub = (Inr (X, y), s')"
  obtains s1 data labels d' l' d'' where
    "np_load s1 (data_path_of E ds) = Inr data"
    "np_load s1 (labels_path_of E ds) = Inr labels"
    "subsample_step E s1 data labels sub = (Inr (d', l'), s')"
    "normalize_step E d' mode = Inr d''"
    "X = np_asarray E d'' Float32" "y = np_asarray E (np_squeeze l') UInt8"
proof -
  obtain r0 s1 where c: "(if \<not> os_path_exists s (data_path_of E ds) then get E s ds else (Inr (), s)) = (r0, s1)"
    by (cases "if \<not> os_path_exists s (data_path_of E ds) then get E s ds else (Inr (), s)")
  have r0: "r0 = Inr ()"
    using assms by (cases r0) (simp_all add: read_def Let_def c)
  obtain data where d: "np_load s1 (data_path_of E ds) = Inr data"
    using assms by (cases "np_load s1 (data_path_of E ds)") (simp_all add: read_def Let_def c r0)
  obtain labels where l: "np_load s1 (labels_path_of E ds) = Inr labels"
    using assms by (cases "np_load s1 (labels_path_of E ds)") (simp_all add: read_def Let_def c r0 d)
  obtain r2 s2 where st: "subsample_step E s1 data labels sub = (r2, s2)"
    by (cases "subsample_step E s1 data labels sub")
  obtain d' l' where r2: "r2 = Inr (d', l')"
    using assms by (cases r2) (auto simp: read_def Let_def c r0 d l st)
  obtain d'' where n: "normalize_step E d' mode = Inr d''"
    using assms by (cases "normalize_step E d' mode") (simp_all add: read_def Let_def c r0 d l st r2)
  have res: "X = np_asarray E d'' Float32" "y = np_asarray E (np_squeeze l') UInt8" "s' = s2"
    using assms by (simp_all add: read_def Let_def c r0 d l st r2 n)
  show ?thesis using d l st n res r2 by (intro that[of s1 data labels d' l' d'']) simp_all
qed

text \<open>
  Claim C8, as amended. Every read that returns, with or without subsampling and
  normalization, returns the features with element type float32 and the labels with element
  type uint8 and without any axis of length 1: the shape of the labels returned is the shape
  of the cached label array, with its first length replaced by the number of rows selected if
  the rows were subsampled, less every axis of length 1.
\<close>

theorem read_result_types:
  assumes "read E s ds mode sub = (Inr (X, y), s')"
  shows "dtype X = Float32 \<and> dtype y = UInt8 \<and> 1 \<notin> set (shape y) \<and>
         (\<exists>labels. np_load s' (labels_path_of E ds) = Inr labels \<and>
            (shape y = filter (\<lambda>d. d \<noteq> 1) (shape labels) \<or>
             (\<exists>k. shape y = filter (\<lambda>d. d \<noteq> 1) (k # tl (shape labels)))))"
proof -
  from assms obtain s1 data labels d' l' d'' where
    l: "np_load s1 (labels_path_of E ds) = Inr labels" and
    step: "subsample_step E s1 data labels sub = (Inr (d', l'), s')" and
    X: "X = np_asarray E d'' Float32" and y: "y = np_asarray E (np_squeeze l') UInt8"
    by (rule read_success)
  have "files s' = files s1" using subsample_step_state[OF step] by simp
  then have l': "np_load s' (labels_path_of E ds) = Inr labels"
    using l by (simp add: np_load_def)
  have "shape y = filter (\<lambda>d. d \<noteq> 1) (shape l')" by (simp add: y np_squeeze_def)
  with subsample_step_label_shape[OF step]
  have "shape y = filter (\<lambda>d. d \<noteq> 1) (shape labels) \<or>
        (\<exists>k. shape y = filter (\<lambda>d. d \<noteq> 1) (k # tl (shape labels)))"
    by auto
  moreover have "dtype X = Float32 \<and> dtype y = UInt8 \<and> 1 \<notin> set (shape y)"
    by (simp add: X y np_squeeze_def)
  ultimately show ?thesis using l' by blast
qed

text \<open>The theorem for a read of the example state with a subsample of 3.\<close>

theorem read_result_types_witness:
  "\<exists>X y s'. read demo_env cached_world ''wine'' None (Some 3) = (Inr (X, y), s') \<and>
      dtype X = Float32 \<and> dtype y = UInt8 \<and> 1 \<notin> set (shape y) \<and>
      (\<exists>labels. np_load s' (labels_path_of demo_env ''wine'') = Inr labels \<and>
         (shape y = filter (\<lambda>d. d \<noteq> 1) (shape labels) \<or>
          (\<exists>k. shape y = filter (\<lambda>d. d \<noteq> 1) (k # tl (shape labels)))))"
proof -
  have "fst (read demo_env cached_world ''wine'' None (Some 3)) =
     Inr (\<lparr>dtype = Float32, shape = [3, 1], flat = [10, 30, 40]\<rparr>,
          \<lparr>dtype = UInt8, shape = [3], flat = [0, 0, 0]\<rparr>)"
    by code_simp
  then obtain s' where r: "read demo_env cached_world ''wine'' None (Some 3) =
     (Inr (\<lparr>dtype = Float32, shape = [3, 1], flat = [10, 30, 40]\<rparr>,
          \<lparr>dtype = UInt8, shape = [3], flat = [0, 0, 0]\<rparr>), s')"
    by (cases "read demo_env cached_world ''wine'' None (Some 3)") simp
  note t = read_result_types[OF r]
  show ?thesis
    apply (rule exI[of _ "\<lparr>dtype = Float32, shape = [3, 1], flat = [10, 30, 40]\<rparr>"])
    apply (rule exI[of _ "\<lparr>dtype = UInt8, shape = [3], flat = [0, 0, 0]\<rparr>"])
    apply (rule exI[of _ s'])
    apply (rule conjI[OF r t])
    done
qed

text \<open>
  Claim C8 as stated says that the labels returned are one-dimensional. With a subsample of 1
  the example selects one row, whose label array of shape \<open>(1, 1)\<close> is squeezed to shape
  \<open>()\<close>: the labels returned have no dimension at all.
\<close>

theorem read_result_types_counterexample:
  "fst (read demo_env cached_world ''wine'' None (Some 1)) =
     Inr (\<lparr>dtype = Float32, shape = [1, 1], flat = [10]\<rparr>,
          \<lparr>dtype = UInt8, shape = [], flat = [0]\<rparr>) \<and>
   length (shape \<lparr>dtype = UInt8, shape = [], flat = [0::int]\<rparr>) \<noteq> 1"
  by code_simp

subsection \<open>read without subsampling\<close>

text \<open>
  Claim C10. Let the cache hold the features \<open>data\<close> and the labels \<open>labels\<close>, and let the
  subsample value be \<^verbatim>\<open>None\<close>, or at least the number \<open>n\<close> of rows of \<open>data\<close>. Then read leaves
  the state as it is, so that no random choice is made, and what it returns is made from the
  whole of both arrays: all of \<open>data\<close>, normalized if a mode is given and converted to float32
  (which leaves a float32 array as it is), and all of \<open>labels\<close>, squeezed and converted to
  uint8; read fails only if the normalization does.
\<close>

theorem read_without_subsampling:
  assumes d: "np_load s (data_path_of E ds) = Inr data"
    and l: "np_load s (labels_path_of E ds) = Inr labels"
    and sub: "sub = None \<or> (\<exists>k n ds'. sub = Some k \<and> shape data = n # ds' \<and> int n \<le> k)"
  shows "read E s ds mode sub =
     (case normalize_step E data mode of
        Inl e \<Rightarrow> (Inl e, s)
      | Inr data' \<Rightarrow>
          (Inr (np_asarray E data' Float32, np_asarray E (np_squeeze labels) UInt8), s))"
proof -
  have step: "subsample_step E s data labels sub = (Inr (data, labels), s)"
    using sub by (auto simp: subsample_step_def)
  show ?thesis
    using np_load_exists[OF d] d l step by (simp add: read_def Let_def split: sum.splits)
qed

text \<open>The theorem for the example state, whose arrays have 4 rows, and a subsample of 4.\<close>

theorem read_without_subsampling_witness:
  "np_load cached_world (data_path_of demo_env ''wine'') = Inr cached_data \<and>
   np_load cached_world (labels_path_of demo_env ''wine'') = Inr cached_labels \<and>
   shape cached_data = [4, 1] \<and>
   read demo_env cached_world ''wine'' None (Some 4) =
     (Inr (\<lparr>dtype = Float32, shape = [4, 1], flat = [10, 20, 30, 40]\<rparr>,
           \<lparr>dtype = UInt8, shape = [4], flat = [0, 1, 0, 0]\<rparr>), cached_world)"
proof -
  have sub: "Some (4::int) = None \<or>
      (\<exists>k n ds'. Some (4::int) = Some k \<and> shape cached_data = n # ds' \<and> int n \<le> k)"
    by (simp add: cached_data_def)
  show ?thesis
    using demo_load read_without_subsampling[OF demo_load sub, of None]
    by (simp add: normalize_step_def np_asarray_def np_squeeze_def cached_data_def
        cached_labels_def demo_env_def)
qed

subsection \<open>Row counts of features and labels\<close>









subsection \<open>The embedding cache\<close>






subsection \<open>The ROC log\<close>

text \<open>
  What a call of roc_curve that returns has done to \<^verbatim>\<open>roc.csv\<close> in the method directory:
  the file is what it was before, or the header line if it was not there, followed by one
  record, the depth, a comma and the scores; and the value returned is the area that
  \<^verbatim>\<open>sklearn.metrics\<close> computed. The record is a single line as long as no formatted score
  contains a line break.
\<close>

lemma png_neq_csv: "os_path_join d (x @ ''-roc.png'') \<noteq> os_path_join d ''roc.csv''"
proof -
  have "last (os_path_join d (x @ ''-roc.png'')) = CHR ''g''" by (simp add: os_path_join_last)
  moreover have "last (os_path_join d ''roc.csv'') = CHR ''v''" by (simp add: os_path_join_last)
  ultimately show ?thesis by auto
qed

lemma roc_curve_log:
  assumes "roc_curve E s true_labels anomalies dataset metric method depth save = (Inr auc, s')"
  shows "\<exists>y_true. collect_labels true_labels anomalies = Inr y_true \<and>
           metrics_auc E y_true (map snd anomalies) = Inr auc \<and>
           pfiles s' (os_path_join (directory_of E dataset metric method) ''roc.csv'') =
             Some ((case pfiles s (os_path_join (directory_of E dataset metric method) ''roc.csv'') of
                      None \<Rightarrow> ''depth,scores'' @ [CHR 0x0A]
                    | Some old \<Rightarrow> old)
                   @ csv_line E anomalies depth)"
  using assms unfolding roc_curve_def Let_def
  by (auto simp: path_exists_def png_neq_csv png_neq_csv[THEN not_sym]
      split: sum.splits option.splits if_splits)

lemma digit_not_newline: "n < 10 \<Longrightarrow> char_of (48 + n) \<noteq> CHR 0x0A" for n :: nat
proof
  assume n: "n < 10" and eq: "char_of (48 + n) = CHR 0x0A"
  from eq have "(of_char (char_of (48 + n)) :: nat) = of_char (CHR 0x0A)" by simp
  then have "(48 + n) mod 256 = 10" by simp
  with n show False by simp
qed

lemma str_nat_no_newline: "CHR 0x0A \<notin> set (str_nat n)"
proof (induction n rule: str_nat.induct)
  case (1 n)
  show ?case
  proof (cases "n < 10")
    case True
    then show ?thesis using digit_not_newline[of n] by (subst str_nat.simps) auto
  next
    case False
    have "n mod 10 < 10" by simp
    from digit_not_newline[OF this] 1[OF False] False
    show ?thesis by (subst str_nat.simps) auto
  qed
qed

lemma str_int_no_newline: "CHR 0x0A \<notin> set (str_int i)"
  by (simp add: str_int_def str_nat_no_newline)

lemma str_join_no_newline:
  "(\<And>x. x \<in> set xs \<Longrightarrow> CHR 0x0A \<notin> set x) \<Longrightarrow> CHR 0x0A \<notin> set sep \<Longrightarrow>
   CHR 0x0A \<notin> set (str_join sep xs)"
  by (induction sep xs rule: str_join.induct) auto

lemma csv_line_one_line:
  assumes "\<And>x. CHR 0x0A \<notin> set (format_16f E x)"
  shows "\<exists>text. csv_line E anomalies depth = text @ [CHR 0x0A] \<and> CHR 0x0A \<notin> set text"
proof -
  have "CHR 0x0A \<notin> set (str_join ''_'' (map (\<lambda>(i, s). format_16f E s) (sort_key fst anomalies)))"
    using assms by (intro str_join_no_newline) auto
  then show ?thesis
    using str_int_no_newline[of depth] by (simp add: csv_line_def)
qed

end
